theory Spec2Isabelle
  imports Main
begin

section \<open>Statement trees of the host query builder\<close>

text \<open>
  The plugin of \<^verbatim>\<open>src/discriminator.ts\<close> rewrites the statement trees of the host query
  builder. The node shapes below are the ones the two hooks read or build; the constant
  \<^verbatim>\<open>kind\<close> tag of every node is the constructor (or the record type) itself.
  The field \<^verbatim>\<open>node\<close> of an \<open>AliasNode\<close> is \<open>aliased\<close>.
  A value of type \<^verbatim>\<open>unknown\<close> is a \<open>js_value\<close>.
\<close>

datatype js_value = JsNull | JsBoolean bool | JsNumber int | JsString string

datatype identifier_node = IdentifierNode (name: string)

record schemable_identifier_node =
  "identifier" :: identifier_node
  schema :: "identifier_node option"

datatype table_node = TableNode (table: schemable_identifier_node)

datatype column_node = ColumnNode (column: identifier_node)

datatype operator_node = OperatorNode (operator: string)

text \<open>
  Operands of a filter. \<open>RawNode\<close> (its SQL fragments) stands for every operand the hooks
  neither read nor build.
\<close>

datatype operand =
  ReferenceNode table_node column_node
| ColumnOperand column_node
| ValueNode js_value
| RawNode "string list"

datatype filter_expression_node =
  FilterNode operand operator_node operand
| AndNode filter_expression_node filter_expression_node
| OrNode filter_expression_node filter_expression_node
| ParensNode filter_expression_node

datatype where_node = WhereNode filter_expression_node

datatype alias_name = AliasIdentifierNode identifier_node | AliasRawNode "string list"

datatype aliased_node = AliasedTableNode table_node | AliasedRawNode "string list"

record alias_node =
  aliased :: aliased_node
  "alias" :: alias_name

text \<open>An item of the FROM list is a \<open>TableNode\<close> or an \<open>AliasNode\<close>.\<close>

datatype table_expression_node = FromTableNode table_node | FromAliasNode alias_node

datatype from_node = FromNode (froms: "table_expression_node list")

record select_query_node =
  "from" :: from_node
  selections :: "operand list"
  "where" :: "where_node option"
  limit :: "js_value option"

datatype value_list_node = PrimitiveValueListNode "js_value list" | ValueListNode "operand list"

text \<open>
  The \<^verbatim>\<open>values\<close> of an INSERT: the literal form \<open>ValuesNode\<close>, or any other node kind
  (a nested SELECT, raw SQL).
\<close>

datatype values_source =
  ValuesNode "value_list_node list"
| ValuesSelectQueryNode select_query_node
| ValuesRawNode "string list"

datatype column_update_node = ColumnUpdateNode column_node operand

record on_conflict_node =
  columns :: "column_node list option"
  "constraint" :: "identifier_node option"
  updates :: "column_update_node list option"
  doNothing :: "bool option"

text \<open>\<open>intoColumns\<close> is the field \<^verbatim>\<open>columns\<close> of the INSERT node.\<close>

record insert_query_node =
  into :: table_node
  intoColumns :: "column_node list option"
  "values" :: "values_source option"
  returning :: "operand list option"
  onConflict :: "on_conflict_node option"
  ignore :: "bool option"

text \<open>The argument of a column factory: \<^verbatim>\<open>InsertQueryNode | SelectQueryNode\<close>.\<close>

datatype query_node = InsertQueryNode insert_query_node | SelectQueryNode select_query_node

section \<open>Configuration\<close>

text \<open>
  \<^verbatim>\<open>ValueOrFactory<Record<string, unknown>, [node]>\<close>: a fixed mapping or a function of the
  statement. The mapping is kept as the list \<^verbatim>\<open>Object.entries\<close> enumerates.
\<close>

type_synonym column_values = "(string \<times> js_value) list"

datatype value_or_factory = Value column_values | Factory "query_node \<Rightarrow> column_values"

fun callOrGet :: "value_or_factory \<Rightarrow> query_node \<Rightarrow> column_values" where
  "callOrGet (Value v) n = v"
| "callOrGet (Factory f) n = f n"

text \<open>
  The table matcher of \<^verbatim>\<open>matcher.ts\<close> is outside this development. The table pattern of
  a rule is taken as the function \<^verbatim>\<open>new TableMatcher(pattern).test\<close> computes from it, from
  a table name and an optional schema name to a truth value; every result below holds for
  every such function.
\<close>

type_synonym table_match = "string \<Rightarrow> string option \<Rightarrow> bool"

record discriminator =
  discriminator_table :: table_match
  discriminator_columns :: value_or_factory

record discriminator_transformer_config =
  discriminator :: discriminator
  throwOnUnsupported :: "bool option"

definition tableMatcher_test :: "discriminator_transformer_config \<Rightarrow> string \<Rightarrow> string option \<Rightarrow> bool" where
  "tableMatcher_test config n s = discriminator_table (discriminator config) n s"

datatype error = Error string

definition UnsupportedConstruct :: error where
  "UnsupportedConstruct = Error ''This type of ValuesNode is not supported by the DiscriminatorPlugin.''"

section \<open>The statement transformer\<close>

text \<open>
  Both hooks first call the inherited hook of the host's \<^verbatim>\<open>OperationNodeTransformer\<close>
  (\<^verbatim>\<open>super.transformInsertQuery\<close>, \<^verbatim>\<open>super.transformSelectQuery\<close>), which rebuilds the
  statement from its recursively transformed children. That class belongs to the host
  library; it is the parameter \<open>super\<close> of each hook, a function that returns the rebuilt
  statement or propagates an error raised below it. \<open>node\<close> is what it returns: the
  statement itself when nothing below it is rewritten, and every result below holds for
  every such function.
\<close>

definition isValuesNode :: "values_source option \<Rightarrow> bool" where
  "isValuesNode v = (case v of Some (ValuesNode rows) \<Rightarrow> True | _ \<Rightarrow> False)"

definition discriminatorColumn :: "string \<times> js_value \<Rightarrow> column_node" where
  "discriminatorColumn e = ColumnNode (IdentifierNode (fst e))"

definition transformInsertQuery ::
  "(insert_query_node \<Rightarrow> error + insert_query_node) \<Rightarrow> discriminator_transformer_config
    \<Rightarrow> insert_query_node \<Rightarrow> error + insert_query_node" where
  "transformInsertQuery super config originalNode =
    (case super originalNode of
      Inl e \<Rightarrow> Inl e
    | Inr node \<Rightarrow>
        if \<not> tableMatcher_test config (name (identifier (table (into node))))
              (map_option name (schema (table (into node))))
        then Inr node
        else if \<not> isValuesNode (values node)
        then (if (case throwOnUnsupported config of None \<Rightarrow> True | Some b \<Rightarrow> b)
              then Inl UnsupportedConstruct
              else Inr node)
        else Inr (node\<lparr>onConflict :=
          (case onConflict node of
            None \<Rightarrow> None
          | Some oc \<Rightarrow>
              Some (oc\<lparr>columns := Some
                ((case columns oc of None \<Rightarrow> [] | Some cs \<Rightarrow> cs) @
                 map discriminatorColumn
                   (callOrGet (discriminator_columns (discriminator config))
                      (InsertQueryNode node)))\<rparr>))\<rparr>))"

text \<open>\<^verbatim>\<open>Array.prototype.flatMap\<close> and \<^verbatim>\<open>Array.prototype.reduce\<close> with an initial value.\<close>

definition flatMap :: "('a \<Rightarrow> 'b list) \<Rightarrow> 'a list \<Rightarrow> 'b list" where
  "flatMap f xs = concat (map f xs)"

fun reduce :: "('b \<Rightarrow> 'a \<Rightarrow> 'b) \<Rightarrow> 'b \<Rightarrow> 'a list \<Rightarrow> 'b" where
  "reduce f acc [] = acc"
| "reduce f acc (x # xs) = reduce f (f acc x) xs"

text \<open>The transient table reference \<^verbatim>\<open>{ table, schema }\<close> read from a FROM item.\<close>

type_synonym table_reference = "string \<times> string option"

fun fromTable :: "table_expression_node \<Rightarrow> table_reference list" where
  "fromTable (FromTableNode f) =
     [(name (identifier (table f)), map_option name (schema (table f)))]"
| "fromTable (FromAliasNode f) =
     (case alias f of AliasIdentifierNode i \<Rightarrow> [] | AliasRawNode r \<Rightarrow> [])"

definition fromTables :: "select_query_node \<Rightarrow> table_reference list" where
  "fromTables node = flatMap fromTable (froms (from node))"

definition eqNode :: "table_reference \<Rightarrow> string \<times> js_value \<Rightarrow> filter_expression_node" where
  "eqNode t e =
     FilterNode
       (ReferenceNode
          (TableNode
             \<lparr>identifier = IdentifierNode (fst t),
              schema = (case snd t of None \<Rightarrow> None | Some s \<Rightarrow> Some (IdentifierNode s))\<rparr>)
          (ColumnNode (IdentifierNode (fst e))))
       (OperatorNode ''='')
       (ValueNode (snd e))"

definition eqNodes :: "discriminator_transformer_config \<Rightarrow> select_query_node \<Rightarrow> filter_expression_node list" where
  "eqNodes config node =
     flatMap (\<lambda>t.
        if \<not> tableMatcher_test config (fst t) (snd t) then []
        else map (eqNode t)
               (callOrGet (discriminator_columns (discriminator config)) (SelectQueryNode node)))
       (fromTables node)
     @ (case where node of Some (WhereNode w) \<Rightarrow> [w] | None \<Rightarrow> [])"

definition filterNode :: "filter_expression_node list \<Rightarrow> filter_expression_node option" where
  "filterNode ns =
     reduce (\<lambda>prev current.
        case prev of None \<Rightarrow> Some current | Some p \<Rightarrow> Some (AndNode p current)) None ns"

definition transformSelectQuery ::
  "(select_query_node \<Rightarrow> error + select_query_node) \<Rightarrow> discriminator_transformer_config
    \<Rightarrow> select_query_node \<Rightarrow> error + select_query_node" where
  "transformSelectQuery super config originalNode =
    (case super originalNode of
      Inl e \<Rightarrow> Inl e
    | Inr node \<Rightarrow>
        (case filterNode (eqNodes config node) of
          None \<Rightarrow> Inr node
        | Some f \<Rightarrow> Inr (node\<lparr>where := Some (WhereNode f)\<rparr>)))"

text \<open>
  Modelled from the spec: the inherited \<^verbatim>\<open>super.transformInsertQuery\<close> of the host, on the
  node shapes above. The specification has it rebuild the statement from its children,
  transformed bottom-up, before the hook looks at it. The one child of an INSERT that is a
  statement here is a SELECT given as its values: it goes through the overriding SELECT
  hook, whose own inherited traversal finds no statement below a SELECT of these shapes and
  returns it as it is. Every other child is rebuilt as it is.
\<close>

definition inheritedTransformInsertQuery ::
  "discriminator_transformer_config \<Rightarrow> insert_query_node \<Rightarrow> error + insert_query_node" where
  "inheritedTransformInsertQuery config originalNode =
    (case values originalNode of
      Some (ValuesSelectQueryNode s) \<Rightarrow>
        (case transformSelectQuery Inr config s of
          Inl e \<Rightarrow> Inl e
        | Inr s' \<Rightarrow> Inr (originalNode\<lparr>values := Some (ValuesSelectQueryNode s')\<rparr>))
    | _ \<Rightarrow> Inr originalNode)"

section \<open>The rewrite pipeline\<close>

text \<open>
  A root node handed to the plugin is an INSERT, a SELECT, or a node of another kind
  (an update, a delete, raw SQL), kept by an opaque rendering.
\<close>

datatype operation_node = QueryNode query_node | OtherNode string

text \<open>
  The methods a \<^verbatim>\<open>DiscriminatorTransformer\<close> inherits from the host's
  \<^verbatim>\<open>OperationNodeTransformer\<close>: the two default hooks the class overrides and calls through
  \<^verbatim>\<open>super\<close>, and the default traversal of every other kind of root node. They are
  parameters, one set for each transformer the plugin constructs.
\<close>

record operation_node_transformer =
  super_transformInsertQuery :: "insert_query_node \<Rightarrow> error + insert_query_node"
  super_transformSelectQuery :: "select_query_node \<Rightarrow> error + select_query_node"
  super_transformOther :: "string \<Rightarrow> error + string"

text \<open>
  \<^verbatim>\<open>transformNode\<close> is inherited too: it hands a node to the hook of its kind, which for an
  INSERT and a SELECT is the overriding hook above.
\<close>

definition transformNode ::
  "operation_node_transformer \<Rightarrow> discriminator_transformer_config \<Rightarrow> operation_node
    \<Rightarrow> error + operation_node" where
  "transformNode host config n =
    (case n of
      QueryNode (InsertQueryNode i) \<Rightarrow>
        (case transformInsertQuery (super_transformInsertQuery host) config i of
          Inl e \<Rightarrow> Inl e
        | Inr r \<Rightarrow> Inr (QueryNode (InsertQueryNode r)))
    | QueryNode (SelectQueryNode s) \<Rightarrow>
        (case transformSelectQuery (super_transformSelectQuery host) config s of
          Inl e \<Rightarrow> Inl e
        | Inr r \<Rightarrow> Inr (QueryNode (SelectQueryNode r)))
    | OtherNode k \<Rightarrow>
        (case super_transformOther host k of
          Inl e \<Rightarrow> Inl e
        | Inr r \<Rightarrow> Inr (OtherNode r)))"

record discriminator_plugin_options =
  tables :: "discriminator list"
  options_throwOnUnsupported :: "bool option"

record plugin_transform_query_args =
  query_queryId :: string
  query_node :: operation_node

record 'r plugin_transform_result_args =
  result_queryId :: string
  result :: 'r

text \<open>The constructor of the plugin: one transformer configuration for each rule, in order.\<close>

definition transformers :: "discriminator_plugin_options \<Rightarrow> discriminator_transformer_config list" where
  "transformers options =
     map (\<lambda>d. \<lparr>discriminator = d, throwOnUnsupported = options_throwOnUnsupported options\<rparr>)
       (tables options)"

text \<open>
  An exception thrown by a transformer leaves \<^verbatim>\<open>reduce\<close>: the accumulator is then the
  error, and no later transformer runs.
\<close>

definition transformQuery ::
  "(discriminator_transformer_config \<Rightarrow> operation_node_transformer) \<Rightarrow> discriminator_plugin_options
    \<Rightarrow> plugin_transform_query_args \<Rightarrow> error + operation_node" where
  "transformQuery host options args =
     reduce (\<lambda>acc transformer.
        case acc of
          Inl e \<Rightarrow> Inl e
        | Inr n \<Rightarrow> transformNode (host transformer) transformer n)
       (Inr (query_node args)) (transformers options)"

definition transformResult :: "'r plugin_transform_result_args \<Rightarrow> 'r" where
  "transformResult args = result args"

section \<open>Notions of the specification\<close>

text \<open>A rule accepts a table node by its name and its optional schema name.\<close>

abbreviation accepts :: "discriminator_transformer_config \<Rightarrow> table_node \<Rightarrow> bool" where
  "accepts config t \<equiv>
     tableMatcher_test config (name (identifier (table t))) (map_option name (schema (table t)))"

text \<open>The left-associated conjunction \<open>((P1 AND P2) AND ...) AND Pn\<close> of \<open>P1\<close> and \<open>[P2, ..., Pn]\<close>.\<close>

fun leftAssociatedAnd ::
  "filter_expression_node \<Rightarrow> filter_expression_node list \<Rightarrow> filter_expression_node" where
  "leftAssociatedAnd p [] = p"
| "leftAssociatedAnd p (q # qs) = leftAssociatedAnd (AndNode p q) qs"

text \<open>The equality predicate \<open>t.c = v\<close> on a column \<open>c\<close> of the table \<open>t\<close>.\<close>

definition equalityPredicate :: "table_node \<Rightarrow> string \<times> js_value \<Rightarrow> filter_expression_node" where
  "equalityPredicate t e =
     FilterNode (ReferenceNode t (ColumnNode (IdentifierNode (fst e)))) (OperatorNode ''='')
       (ValueNode (snd e))"

text \<open>
  The synthesized predicates of a FROM list: for each direct table reference the rule
  accepts, in FROM-list order, one equality predicate for each entry of the column mapping,
  in the order of the mapping.
\<close>

fun synthesizedPredicates ::
  "discriminator_transformer_config \<Rightarrow> column_values \<Rightarrow> table_expression_node list
    \<Rightarrow> filter_expression_node list" where
  "synthesizedPredicates config m [] = []"
| "synthesizedPredicates config m (FromTableNode t # fs) =
     (if accepts config t then map (equalityPredicate t) m else [])
     @ synthesizedPredicates config m fs"
| "synthesizedPredicates config m (FromAliasNode a # fs) = synthesizedPredicates config m fs"

text \<open>The column mapping of a rule at a SELECT statement.\<close>

definition columnsAt :: "discriminator_transformer_config \<Rightarrow> select_query_node \<Rightarrow> column_values" where
  "columnsAt config n = callOrGet (discriminator_columns (discriminator config)) (SelectQueryNode n)"

text \<open>
  The pipeline of the specification: the node goes through the transformers one after the
  other, each receiving what the one before it returned; the first error ends it.
\<close>

fun foldThrough ::
  "('t \<Rightarrow> 'n \<Rightarrow> error + 'n) \<Rightarrow> 't list \<Rightarrow> 'n \<Rightarrow> error + 'n" where
  "foldThrough f [] n = Inr n"
| "foldThrough f (t # ts) n = (case f t n of Inl e \<Rightarrow> Inl e | Inr n' \<Rightarrow> foldThrough f ts n')"

section \<open>Example statements\<close>

text \<open>
  Two tables, two rules and a few statements on which the results below are evaluated.
  \<open>tenantRule\<close> accepts the table \<^verbatim>\<open>orders\<close> in any schema and has a fixed mapping of two
  columns; \<open>regionRule\<close> accepts every table without a schema and computes its mapping.
  \<open>defaultHost\<close> is the inherited traversal on a statement without nested statements: it
  returns the statement as it is.
\<close>

definition ordersTable :: table_node where
  "ordersTable = TableNode \<lparr>identifier = IdentifierNode ''orders'', schema = None\<rparr>"

definition usersTable :: table_node where
  "usersTable =
     TableNode \<lparr>identifier = IdentifierNode ''users'', schema = Some (IdentifierNode ''public'')\<rparr>"

definition tenantRule :: discriminator where
  "tenantRule =
     \<lparr>discriminator_table = (\<lambda>n s. n = ''orders''),
      discriminator_columns = Value [(''tenant_id'', JsNumber 7), (''deleted'', JsBoolean False)]\<rparr>"

definition regionRule :: discriminator where
  "regionRule =
     \<lparr>discriminator_table = (\<lambda>n s. s = None),
      discriminator_columns = Factory (\<lambda>n. [(''region'', JsString ''eu'')])\<rparr>"

definition tenantConfig :: "bool option \<Rightarrow> discriminator_transformer_config" where
  "tenantConfig t = \<lparr>discriminator = tenantRule, throwOnUnsupported = t\<rparr>"

definition defaultHost :: "discriminator_transformer_config \<Rightarrow> operation_node_transformer" where
  "defaultHost config =
     \<lparr>super_transformInsertQuery = Inr, super_transformSelectQuery = Inr,
      super_transformOther = Inr\<rparr>"

definition idFilter :: filter_expression_node where
  "idFilter =
     FilterNode (ColumnOperand (ColumnNode (IdentifierNode ''id''))) (OperatorNode ''='')
       (ValueNode (JsNumber 1))"

definition selectFrom :: "table_expression_node list \<Rightarrow> where_node option \<Rightarrow> select_query_node" where
  "selectFrom fs w = \<lparr>from = FromNode fs, selections = [], where = w, limit = None\<rparr>"

definition literalValues :: values_source where
  "literalValues = ValuesNode [PrimitiveValueListNode [JsNumber 1]]"

definition conflictOn :: "string list \<Rightarrow> on_conflict_node" where
  "conflictOn cs =
     \<lparr>columns = Some (map (\<lambda>c. ColumnNode (IdentifierNode c)) cs), constraint = None,
      updates = None, doNothing = Some True\<rparr>"

definition insertInto ::
  "table_node \<Rightarrow> values_source option \<Rightarrow> on_conflict_node option \<Rightarrow> insert_query_node" where
  "insertInto t v oc =
     \<lparr>into = t, intoColumns = Some [ColumnNode (IdentifierNode ''id'')], values = v,
      returning = None, onConflict = oc, ignore = None\<rparr>"

text \<open>
  \<^verbatim>\<open>INSERT INTO t SELECT ... FROM orders\<close>, and the same statement with the nested SELECT
  filtered by \<open>tenantRule\<close>.
\<close>

definition insertSelectOrders :: "table_node \<Rightarrow> insert_query_node" where
  "insertSelectOrders t =
     insertInto t (Some (ValuesSelectQueryNode (selectFrom [FromTableNode ordersTable] None))) None"

definition insertSelectOrdersFiltered :: "table_node \<Rightarrow> insert_query_node" where
  "insertSelectOrdersFiltered t =
     insertInto t
       (Some (ValuesSelectQueryNode (selectFrom [FromTableNode ordersTable]
          (Some (WhereNode
             (AndNode (equalityPredicate ordersTable (''tenant_id'', JsNumber 7))
                      (equalityPredicate ordersTable (''deleted'', JsBoolean False))))))))
       None"

definition ordersAlias :: alias_node where
  "ordersAlias =
     \<lparr>aliased = AliasedTableNode ordersTable, alias = AliasIdentifierNode (IdentifierNode ''o'')\<rparr>"

section \<open>The source's loops and the notions of the specification\<close>

lemma flatMap_Nil: "flatMap f [] = []"
  by (simp add: flatMap_def)

lemma flatMap_Cons: "flatMap f (x # xs) = f x @ flatMap f xs"
  by (simp add: flatMap_def)

lemma flatMap_append: "flatMap f (xs @ ys) = flatMap f xs @ flatMap f ys"
  by (simp add: flatMap_def)

text \<open>
  The table node the SELECT hook rebuilds from the name and the schema name of a FROM item
  is that item's table node.
\<close>

lemma eqNode_equalityPredicate:
  "eqNode (name (identifier (table t)), map_option name (schema (table t))) e = equalityPredicate t e"
proof -
  obtain i s where t: "t = TableNode \<lparr>identifier = i, schema = s\<rparr>"
    by (metis table_node.exhaust schemable_identifier_node.cases)
  obtain n where i: "i = IdentifierNode n"
    by (cases i)
  show ?thesis
  proof (cases s)
    case None
    then show ?thesis by (simp add: t i eqNode_def equalityPredicate_def)
  next
    case (Some j)
    then show ?thesis by (cases j) (simp add: t i eqNode_def equalityPredicate_def)
  qed
qed

lemma fromTable_alias: "fromTable (FromAliasNode a) = []"
  by (cases "alias a") simp_all

lemma synthesized_flatMap:
  "flatMap (\<lambda>t. if \<not> tableMatcher_test config (fst t) (snd t) then [] else map (eqNode t) m)
     (flatMap fromTable fs) = synthesizedPredicates config m fs"
proof (induction fs)
  case Nil
  show ?case by (simp add: flatMap_Nil)
next
  case (Cons f fs)
  show ?case
  proof (cases f)
    case (FromTableNode t)
    have "map (eqNode (name (identifier (table t)), map_option name (schema (table t)))) m
            = map (equalityPredicate t) m"
      by (simp add: eqNode_equalityPredicate)
    with Cons FromTableNode show ?thesis
      by (simp add: flatMap_Cons flatMap_Nil flatMap_append)
  next
    case (FromAliasNode a)
    with Cons show ?thesis
      by (simp add: flatMap_Cons flatMap_Nil split: alias_name.splits)
  qed
qed

lemma eqNodes_synthesized:
  "eqNodes config node =
     synthesizedPredicates config (columnsAt config node) (froms (from node))
     @ (case where node of Some (WhereNode w) \<Rightarrow> [w] | None \<Rightarrow> [])"
  by (simp add: eqNodes_def fromTables_def columnsAt_def synthesized_flatMap)

lemma synthesized_aliases: "synthesizedPredicates config m (map FromAliasNode as) = []"
  by (induction as) simp_all

lemma reduce_Some:
  "reduce (\<lambda>prev current. case prev of None \<Rightarrow> Some current | Some p \<Rightarrow> Some (AndNode p current))
     (Some p) ns = Some (leftAssociatedAnd p ns)"
  by (induction ns arbitrary: p) simp_all

lemma filterNode_Nil: "filterNode [] = None"
  by (simp add: filterNode_def)

lemma filterNode_Cons: "filterNode (p # ns) = Some (leftAssociatedAnd p ns)"
  by (simp add: filterNode_def reduce_Some)

lemma leftAssociatedAnd_snoc: "leftAssociatedAnd p (qs @ [w]) = AndNode (leftAssociatedAnd p qs) w"
  by (induction qs arbitrary: p) simp_all

lemma filterNode_snoc:
  "filterNode (ps @ [w]) = Some (case ps of [] \<Rightarrow> w | p # qs \<Rightarrow> AndNode (leftAssociatedAnd p qs) w)"
  by (cases ps) (simp_all add: filterNode_Cons leftAssociatedAnd_snoc)

lemma chain_last_operand:
  "leftAssociatedAnd (hd (ps @ [w])) (tl (ps @ [w]))
     = (case ps of [] \<Rightarrow> w | p # qs \<Rightarrow> AndNode (leftAssociatedAnd p qs) w)"
  by (cases ps) (simp_all add: leftAssociatedAnd_snoc)

lemma AndNode_neq_right: "AndNode c f \<noteq> f"
proof
  assume "AndNode c f = f"
  then have "size (AndNode c f) = size f" by simp
  then show False by simp
qed

text \<open>Once the accumulator of \<^verbatim>\<open>reduce\<close> is an error it stays that error.\<close>

lemma reduce_Inl:
  "reduce (\<lambda>acc t. case acc of Inl e \<Rightarrow> Inl e | Inr n \<Rightarrow> f t n) (Inl e) ts = Inl e"
  by (induction ts) simp_all

lemma reduce_foldThrough:
  "reduce (\<lambda>acc t. case acc of Inl e \<Rightarrow> Inl e | Inr n \<Rightarrow> f t n) (Inr n) ts = foldThrough f ts n"
proof (induction ts arbitrary: n)
  case Nil
  show ?case by simp
next
  case (Cons t ts)
  show ?case
  proof (cases "f t n")
    case (Inl e)
    then show ?thesis by (simp add: reduce_Inl)
  next
    case (Inr n')
    with Cons show ?thesis by simp
  qed
qed

text \<open>The SELECT hook raises nothing of its own.\<close>

lemma transformSelectQuery_returns:
  "super s = Inr n \<Longrightarrow> \<exists>r. transformSelectQuery super config s = Inr r"
  by (simp add: transformSelectQuery_def split: option.splits)

text \<open>
  The modelled inherited traversal of an INSERT returns a node with the target table, the
  kind of the values and the conflict clause of the statement; it returns the statement
  itself when the values are not a SELECT.
\<close>

lemma inheritedTransformInsertQuery_returns:
  "\<exists>n. inheritedTransformInsertQuery config i = Inr n \<and> into n = into i
      \<and> isValuesNode (values n) = isValuesNode (values i) \<and> onConflict n = onConflict i"
proof (cases "values i")
  case None
  then show ?thesis by (simp add: inheritedTransformInsertQuery_def)
next
  case (Some v)
  show ?thesis
  proof (cases v)
    case (ValuesNode rows)
    with Some show ?thesis by (simp add: inheritedTransformInsertQuery_def)
  next
    case (ValuesSelectQueryNode s)
    obtain r where "transformSelectQuery Inr config s = Inr r"
      using transformSelectQuery_returns [of Inr s s config] by auto
    with Some ValuesSelectQueryNode show ?thesis
      by (simp add: inheritedTransformInsertQuery_def isValuesNode_def)
  next
    case (ValuesRawNode fs)
    with Some show ?thesis by (simp add: inheritedTransformInsertQuery_def)
  qed
qed

lemma inheritedTransformInsertQuery_no_select:
  "(case values i of Some (ValuesSelectQueryNode s) \<Rightarrow> False | _ \<Rightarrow> True)
    \<Longrightarrow> inheritedTransformInsertQuery config i = Inr i"
  by (simp add: inheritedTransformInsertQuery_def split: option.splits values_source.splits)

lemma unmatched_insert:
  "super i = Inr n \<Longrightarrow> \<not> accepts config (into n) \<Longrightarrow> transformInsertQuery super config i = Inr n"
  by (simp add: transformInsertQuery_def)

lemma unmatched_select:
  assumes "super s = Inr n"
    and "\<forall>t \<in> set (fromTables n). \<not> tableMatcher_test config (fst t) (snd t)"
  shows "transformSelectQuery super config s = Inr n"
proof -
  have "\<And>ts. \<forall>t \<in> set ts. \<not> tableMatcher_test config (fst t) (snd t) \<Longrightarrow>
      flatMap (\<lambda>t. if \<not> tableMatcher_test config (fst t) (snd t) then [] else map (eqNode t) m) ts
        = []" for m
    by (simp add: flatMap_def)
  with assms(2) have e: "eqNodes config n = (case where n of Some (WhereNode w) \<Rightarrow> [w] | None \<Rightarrow> [])"
    by (simp add: eqNodes_def)
  show ?thesis
  proof (cases "where n")
    case None
    with assms(1) e show ?thesis by (simp add: transformSelectQuery_def filterNode_Nil)
  next
    case (Some w)
    then obtain f where "where n = Some (WhereNode f)" by (cases w) simp
    with assms(1) e show ?thesis by (simp add: transformSelectQuery_def filterNode_Cons)
  qed
qed

lemma insert_hook_raises_iff:
  "super i = Inr n \<Longrightarrow>
    (\<exists>e. transformInsertQuery super config i = Inl e)
      \<longleftrightarrow> accepts config (into n) \<and> \<not> isValuesNode (values n)
            \<and> throwOnUnsupported config \<noteq> Some False"
  by (cases "throwOnUnsupported config") (auto simp add: transformInsertQuery_def)

lemma insert_hook_raises:
  "super i = Inr n \<Longrightarrow> accepts config (into n) \<Longrightarrow> \<not> isValuesNode (values n)
    \<Longrightarrow> throwOnUnsupported config \<noteq> Some False
    \<Longrightarrow> transformInsertQuery super config i = Inl UnsupportedConstruct"
  by (cases "throwOnUnsupported config") (auto simp add: transformInsertQuery_def)

lemma insert_hook_passes:
  "super i = Inr n \<Longrightarrow> accepts config (into n) \<Longrightarrow> \<not> isValuesNode (values n)
    \<Longrightarrow> throwOnUnsupported config = Some False
    \<Longrightarrow> transformInsertQuery super config i = Inr n"
  by (simp add: transformInsertQuery_def)

section \<open>The SELECT hook\<close>

text \<open>
  C1. A SELECT statement arrives at the hook as \<open>node\<close>, the statement the inherited
  traversal returns, with a filter \<open>W\<close>. Let \<open>P1, ..., Pk\<close> be the synthesized predicates:
  one for each column of the mapping, for each direct table reference the rule accepts, in
  FROM-list order and then in the order of the mapping. The hook returns \<open>node\<close> with the
  filter replaced by the left-associated conjunction of \<open>P1, ..., Pk, W\<close>: that is \<open>W\<close>
  itself when \<open>k = 0\<close>, and otherwise the \<open>AndNode\<close> of the left-associated conjunction of
  \<open>P1, ..., Pk\<close> and, as its right operand, \<open>W\<close>. The filter is kept, it comes last, and it
  is joined by \<open>AndNode\<close> only.
\<close>

theorem select_where_is_and_chain:
  assumes "super originalNode = Inr node"
    and "where node = Some (WhereNode W)"
    and "ps = synthesizedPredicates config (columnsAt config node) (froms (from node))"
  shows "transformSelectQuery super config originalNode =
      Inr (node\<lparr>where := Some (WhereNode (leftAssociatedAnd (hd (ps @ [W])) (tl (ps @ [W]))))\<rparr>)
    \<and> leftAssociatedAnd (hd (ps @ [W])) (tl (ps @ [W]))
        = (case ps of [] \<Rightarrow> W | p # qs \<Rightarrow> AndNode (leftAssociatedAnd p qs) W)"
  using assms
  by (simp add: transformSelectQuery_def eqNodes_synthesized filterNode_snoc chain_last_operand)

theorem select_where_is_and_chain_witness:
  "transformSelectQuery Inr (tenantConfig None)
     (selectFrom [FromTableNode usersTable, FromTableNode ordersTable] (Some (WhereNode idFilter)))
   = Inr (selectFrom [FromTableNode usersTable, FromTableNode ordersTable]
       (Some (WhereNode
          (AndNode
            (AndNode (equalityPredicate ordersTable (''tenant_id'', JsNumber 7))
                     (equalityPredicate ordersTable (''deleted'', JsBoolean False)))
            idFilter))))"
  using select_where_is_and_chain [of Inr
      "selectFrom [FromTableNode usersTable, FromTableNode ordersTable] (Some (WhereNode idFilter))"
      "selectFrom [FromTableNode usersTable, FromTableNode ordersTable] (Some (WhereNode idFilter))"
      idFilter
      "[equalityPredicate ordersTable (''tenant_id'', JsNumber 7),
        equalityPredicate ordersTable (''deleted'', JsBoolean False)]"
      "tenantConfig None"]
  by (simp add: selectFrom_def tenantConfig_def tenantRule_def columnsAt_def tableMatcher_test_def
      ordersTable_def usersTable_def)

text \<open>
  C7. The SELECT hook is not idempotent. Take a statement that the inherited traversal
  returns as it is, a rule with a fixed column mapping, and at least one synthesized
  predicate (\<open>p\<close> and \<open>ps\<close>: a direct table reference the rule accepts and a mapping that is
  not empty). The first application installs the conjunction of the predicates (and of the
  filter of the statement, if it has one); the second application, on that result,
  installs the conjunction of the same predicates and of the filter the first one
  installed. The filter then holds the predicates twice, and the second result differs from
  the first.
\<close>

theorem select_twice_two_copies:
  assumes "super node = Inr node"
    and "discriminator_columns (discriminator config) = Value m"
    and "synthesizedPredicates config m (froms (from node)) = p # ps"
    and "once = node\<lparr>where := Some (WhereNode
           (case where node of None \<Rightarrow> leftAssociatedAnd p ps
            | Some (WhereNode w) \<Rightarrow> AndNode (leftAssociatedAnd p ps) w))\<rparr>"
    and "super once = Inr once"
  shows "transformSelectQuery super config node = Inr once
     \<and> transformSelectQuery super config once =
         Inr (once\<lparr>where := Some (WhereNode
           (AndNode (leftAssociatedAnd p ps)
             (case where node of None \<Rightarrow> leftAssociatedAnd p ps
              | Some (WhereNode w) \<Rightarrow> AndNode (leftAssociatedAnd p ps) w)))\<rparr>)
     \<and> transformSelectQuery super config once \<noteq> transformSelectQuery super config node"
proof -
  let ?f = "case where node of None \<Rightarrow> leftAssociatedAnd p ps
            | Some (WhereNode w) \<Rightarrow> AndNode (leftAssociatedAnd p ps) w"
  have c: "columnsAt config n = m" for n
    using assms(2) by (simp add: columnsAt_def)
  have first: "transformSelectQuery super config node = Inr once"
  proof (cases "where node")
    case None
    with assms(1,3,4) c show ?thesis
      by (simp add: transformSelectQuery_def eqNodes_synthesized filterNode_Cons)
  next
    case (Some wn)
    then obtain w where w: "where node = Some (WhereNode w)" by (cases wn) simp
    with assms(1,3,4) c show ?thesis
      by (simp add: transformSelectQuery_def eqNodes_synthesized filterNode_Cons
          leftAssociatedAnd_snoc)
  qed
  have o: "from once = from node" "where once = Some (WhereNode ?f)"
    using assms(4) by simp_all
  have second: "transformSelectQuery super config once =
      Inr (once\<lparr>where := Some (WhereNode (AndNode (leftAssociatedAnd p ps) ?f))\<rparr>)"
    using assms(3,5) c o
    by (simp add: transformSelectQuery_def eqNodes_synthesized filterNode_Cons
        leftAssociatedAnd_snoc)
  have "once\<lparr>where := Some (WhereNode (AndNode (leftAssociatedAnd p ps) ?f))\<rparr> \<noteq> once"
  proof
    assume "once\<lparr>where := Some (WhereNode (AndNode (leftAssociatedAnd p ps) ?f))\<rparr> = once"
    then have "where (once\<lparr>where := Some (WhereNode (AndNode (leftAssociatedAnd p ps) ?f))\<rparr>)
        = where once" by simp
    with o(2) have "AndNode (leftAssociatedAnd p ps) ?f = ?f" by simp
    then show False by (simp add: AndNode_neq_right)
  qed
  with first second show ?thesis by simp
qed

theorem select_twice_two_copies_witness:
  "transformSelectQuery Inr (tenantConfig None)
     (selectFrom [FromTableNode ordersTable] (Some (WhereNode
        (AndNode (AndNode (equalityPredicate ordersTable (''tenant_id'', JsNumber 7))
                          (equalityPredicate ordersTable (''deleted'', JsBoolean False))) idFilter))))
   = Inr (selectFrom [FromTableNode ordersTable] (Some (WhereNode
       (AndNode (AndNode (equalityPredicate ordersTable (''tenant_id'', JsNumber 7))
                         (equalityPredicate ordersTable (''deleted'', JsBoolean False)))
         (AndNode (AndNode (equalityPredicate ordersTable (''tenant_id'', JsNumber 7))
                           (equalityPredicate ordersTable (''deleted'', JsBoolean False))) idFilter)))))"
  using select_twice_two_copies [of Inr
      "selectFrom [FromTableNode ordersTable] (Some (WhereNode idFilter))"
      "tenantConfig None" "[(''tenant_id'', JsNumber 7), (''deleted'', JsBoolean False)]"
      "equalityPredicate ordersTable (''tenant_id'', JsNumber 7)"
      "[equalityPredicate ordersTable (''deleted'', JsBoolean False)]"
      "selectFrom [FromTableNode ordersTable] (Some (WhereNode
        (AndNode (AndNode (equalityPredicate ordersTable (''tenant_id'', JsNumber 7))
                          (equalityPredicate ordersTable (''deleted'', JsBoolean False))) idFilter)))"]
  by (simp add: selectFrom_def tenantConfig_def tenantRule_def tableMatcher_test_def ordersTable_def)

text \<open>
  C8. A FROM item that is an \<open>AliasNode\<close> gives no table reference, whatever it aliases:
  the table references of a statement are those of the statement without the item. A
  SELECT whose FROM items are all aliases gets no predicate and is returned as the
  inherited traversal returned it, also when an aliased table is one the rule accepts.
\<close>

theorem aliased_from_items_skipped:
  "fromTable (FromAliasNode a) = []
   \<and> fromTables (node\<lparr>from := FromNode (xs @ FromAliasNode a # ys)\<rparr>)
       = fromTables (node\<lparr>from := FromNode (xs @ ys)\<rparr>)
   \<and> (super originalNode = Inr node' \<and> froms (from node') = map FromAliasNode as
       \<longrightarrow> transformSelectQuery super config originalNode = Inr node')"
proof (intro conjI impI)
  show "fromTable (FromAliasNode a) = []"
    by (rule fromTable_alias)
  show "fromTables (node\<lparr>from := FromNode (xs @ FromAliasNode a # ys)\<rparr>)
       = fromTables (node\<lparr>from := FromNode (xs @ ys)\<rparr>)"
    by (simp add: fromTables_def flatMap_append flatMap_Cons split: alias_name.splits)
next
  assume a: "super originalNode = Inr node' \<and> froms (from node') = map FromAliasNode as"
  show "transformSelectQuery super config originalNode = Inr node'"
  proof (cases "where node'")
    case None
    with a show ?thesis
      by (simp add: transformSelectQuery_def eqNodes_synthesized synthesized_aliases filterNode_Nil)
  next
    case (Some w)
    then obtain f where "where node' = Some (WhereNode f)" by (cases w) simp
    with a show ?thesis
      by (simp add: transformSelectQuery_def eqNodes_synthesized synthesized_aliases filterNode_Cons)
  qed
qed

theorem aliased_from_items_skipped_witness:
  "accepts (tenantConfig None) ordersTable
   \<and> transformSelectQuery Inr (tenantConfig None) (selectFrom [FromAliasNode ordersAlias] None)
       = Inr (selectFrom [FromAliasNode ordersAlias] None)"
  using aliased_from_items_skipped [where super = Inr
      and originalNode = "selectFrom [FromAliasNode ordersAlias] None"
      and node' = "selectFrom [FromAliasNode ordersAlias] None"
      and as = "[ordersAlias]" and config = "tenantConfig None"]
  by (simp add: selectFrom_def tenantConfig_def tenantRule_def tableMatcher_test_def ordersTable_def)

section \<open>The INSERT hook\<close>

text \<open>
  C2. An INSERT statement arrives at the hook as \<open>node\<close>, on a table the rule accepts, with
  a literal values list and a conflict clause \<open>oc\<close>. The hook returns \<open>node\<close> with the target
  columns of the conflict clause followed by one column for each key of the column mapping,
  in the order of the mapping: targets \<open>[c1, c2]\<close> and keys \<open>[d1]\<close> give \<open>[c1, c2, d1]\<close>.
  Nothing is removed, a key that is already a target appears twice, and the constraint, the
  updates and the action of the conflict clause are the ones of \<open>oc\<close>.
\<close>

theorem insert_conflict_columns_appended:
  assumes "super originalNode = Inr node"
    and "accepts config (into node)"
    and "values node = Some (ValuesNode rows)"
    and "onConflict node = Some oc"
    and "callOrGet (discriminator_columns (discriminator config)) (InsertQueryNode node) = m"
  shows "transformInsertQuery super config originalNode =
    Inr (node\<lparr>onConflict := Some
      \<lparr>columns = Some ((case columns oc of None \<Rightarrow> [] | Some cs \<Rightarrow> cs)
                        @ map (\<lambda>d. ColumnNode (IdentifierNode d)) (map fst m)),
       constraint = constraint oc, updates = updates oc, doNothing = doNothing oc\<rparr>\<rparr>)"
  using assms
  by (simp add: transformInsertQuery_def isValuesNode_def discriminatorColumn_def comp_def)

theorem insert_conflict_columns_appended_witness:
  "transformInsertQuery Inr (tenantConfig None)
     (insertInto ordersTable (Some literalValues) (Some (conflictOn [''id'', ''tenant_id''])))
   = Inr (insertInto ordersTable (Some literalValues)
       (Some (conflictOn [''id'', ''tenant_id'', ''tenant_id'', ''deleted''])))"
  using insert_conflict_columns_appended [of Inr
      "insertInto ordersTable (Some literalValues) (Some (conflictOn [''id'', ''tenant_id'']))"
      "insertInto ordersTable (Some literalValues) (Some (conflictOn [''id'', ''tenant_id'']))"
      "tenantConfig None" "[PrimitiveValueListNode [JsNumber 1]]" "conflictOn [''id'', ''tenant_id'']"
      "[(''tenant_id'', JsNumber 7), (''deleted'', JsBoolean False)]"]
  by (simp add: insertInto_def tenantConfig_def tenantRule_def tableMatcher_test_def
      ordersTable_def literalValues_def conflictOn_def)

text \<open>
  C3. An INSERT statement arrives at the hook as \<open>node\<close>, the statement the inherited
  traversal rebuilt. When its table is one the rule accepts and its values are not the
  literal form, the hook raises \<open>UnsupportedConstruct\<close> and returns no node if
  \<^verbatim>\<open>throwOnUnsupported\<close> is true or unset, and returns \<open>node\<close>, with no change of its own,
  if \<^verbatim>\<open>throwOnUnsupported\<close> is false: that is the statement itself where the inherited
  traversal returns the statement itself. The hook raises in no other case. With the
  inherited traversal as modelled, the raise is decided by the statement itself (its
  target table and the kind of its values are those of \<open>node\<close>), and with
  \<^verbatim>\<open>throwOnUnsupported\<close> false a statement whose values are not a SELECT is returned as
  it is.
\<close>

theorem insert_unsupported_values:
  "(super originalNode = Inr node \<and> accepts config (into node) \<and> \<not> isValuesNode (values node)
      \<and> throwOnUnsupported config \<noteq> Some False
    \<longrightarrow> transformInsertQuery super config originalNode = Inl UnsupportedConstruct)
   \<and> (super originalNode = Inr node \<and> accepts config (into node) \<and> \<not> isValuesNode (values node)
      \<and> throwOnUnsupported config = Some False
    \<longrightarrow> transformInsertQuery super config originalNode = Inr node)
   \<and> (super originalNode = Inr originalNode \<and> accepts config (into originalNode)
      \<and> \<not> isValuesNode (values originalNode) \<and> throwOnUnsupported config = Some False
    \<longrightarrow> transformInsertQuery super config originalNode = Inr originalNode)
   \<and> (super originalNode = Inr node
    \<longrightarrow> ((\<exists>e. transformInsertQuery super config originalNode = Inl e)
          \<longleftrightarrow> accepts config (into node) \<and> \<not> isValuesNode (values node)
                \<and> throwOnUnsupported config \<noteq> Some False))
   \<and> ((\<exists>e. transformInsertQuery (inheritedTransformInsertQuery config) config originalNode = Inl e)
          \<longleftrightarrow> accepts config (into originalNode) \<and> \<not> isValuesNode (values originalNode)
                \<and> throwOnUnsupported config \<noteq> Some False)
   \<and> (accepts config (into originalNode) \<and> \<not> isValuesNode (values originalNode)
      \<and> throwOnUnsupported config \<noteq> Some False
    \<longrightarrow> transformInsertQuery (inheritedTransformInsertQuery config) config originalNode
          = Inl UnsupportedConstruct)
   \<and> (accepts config (into originalNode) \<and> \<not> isValuesNode (values originalNode)
      \<and> throwOnUnsupported config = Some False
      \<and> (case values originalNode of Some (ValuesSelectQueryNode s) \<Rightarrow> False | _ \<Rightarrow> True)
    \<longrightarrow> transformInsertQuery (inheritedTransformInsertQuery config) config originalNode
          = Inr originalNode)"
proof -
  obtain n where n: "inheritedTransformInsertQuery config originalNode = Inr n"
      "into n = into originalNode" "isValuesNode (values n) = isValuesNode (values originalNode)"
    using inheritedTransformInsertQuery_returns [of config originalNode] by auto
  have raise: "(\<exists>e. transformInsertQuery (inheritedTransformInsertQuery config) config originalNode = Inl e)
          \<longleftrightarrow> accepts config (into originalNode) \<and> \<not> isValuesNode (values originalNode)
                \<and> throwOnUnsupported config \<noteq> Some False"
    using insert_hook_raises_iff [of "inheritedTransformInsertQuery config" originalNode n config]
      n by simp
  have raised: "accepts config (into originalNode) \<and> \<not> isValuesNode (values originalNode)
      \<and> throwOnUnsupported config \<noteq> Some False
    \<longrightarrow> transformInsertQuery (inheritedTransformInsertQuery config) config originalNode
          = Inl UnsupportedConstruct"
    using insert_hook_raises [of "inheritedTransformInsertQuery config" originalNode n config]
      n by simp
  have passed: "accepts config (into originalNode) \<and> \<not> isValuesNode (values originalNode)
      \<and> throwOnUnsupported config = Some False
      \<and> (case values originalNode of Some (ValuesSelectQueryNode s) \<Rightarrow> False | _ \<Rightarrow> True)
    \<longrightarrow> transformInsertQuery (inheritedTransformInsertQuery config) config originalNode
          = Inr originalNode"
    using insert_hook_passes [of "inheritedTransformInsertQuery config" originalNode originalNode config]
      inheritedTransformInsertQuery_no_select [of originalNode config]
    by simp
  show ?thesis
    using raise raised passed
      insert_hook_raises [of super originalNode node config]
      insert_hook_passes [of super originalNode node config]
      insert_hook_passes [of super originalNode originalNode config]
      insert_hook_raises_iff [of super originalNode node config]
    by blast
qed

theorem insert_unsupported_values_witness:
  "transformInsertQuery Inr (tenantConfig None)
     (insertInto ordersTable (Some (ValuesRawNode [''default values''])) None)
     = Inl UnsupportedConstruct
   \<and> transformInsertQuery Inr (tenantConfig (Some True))
     (insertInto ordersTable (Some (ValuesRawNode [''default values''])) None)
     = Inl UnsupportedConstruct
   \<and> transformInsertQuery Inr (tenantConfig (Some False))
     (insertInto ordersTable (Some (ValuesRawNode [''default values''])) None)
     = Inr (insertInto ordersTable (Some (ValuesRawNode [''default values''])) None)
   \<and> transformInsertQuery (inheritedTransformInsertQuery (tenantConfig (Some False)))
       (tenantConfig (Some False))
       (insertInto ordersTable (Some (ValuesRawNode [''default values''])) None)
     = Inr (insertInto ordersTable (Some (ValuesRawNode [''default values''])) None)
   \<and> transformInsertQuery (inheritedTransformInsertQuery (tenantConfig None)) (tenantConfig None)
       (insertSelectOrders ordersTable)
     = Inl UnsupportedConstruct
   \<and> (\<nexists>e. transformInsertQuery Inr (tenantConfig None)
     (insertInto ordersTable (Some literalValues) None) = Inl e)"
  using insert_unsupported_values [of Inr
      "insertInto ordersTable (Some (ValuesRawNode [''default values''])) None"
      "insertInto ordersTable (Some (ValuesRawNode [''default values''])) None" "tenantConfig None"]
    insert_unsupported_values [of Inr
      "insertInto ordersTable (Some (ValuesRawNode [''default values''])) None"
      "insertInto ordersTable (Some (ValuesRawNode [''default values''])) None"
      "tenantConfig (Some True)"]
    insert_unsupported_values [of Inr
      "insertInto ordersTable (Some (ValuesRawNode [''default values''])) None"
      "insertInto ordersTable (Some (ValuesRawNode [''default values''])) None"
      "tenantConfig (Some False)"]
    insert_unsupported_values [of Inr "insertSelectOrders ordersTable"
      "insertSelectOrders ordersTable" "tenantConfig None"]
    insert_unsupported_values [of Inr
      "insertInto ordersTable (Some literalValues) None"
      "insertInto ordersTable (Some literalValues) None" "tenantConfig None"]
  by (simp add: insertInto_def insertSelectOrders_def tenantConfig_def tenantRule_def
      tableMatcher_test_def ordersTable_def literalValues_def isValuesNode_def)

text \<open>
  The statement \<^verbatim>\<open>INSERT INTO orders SELECT ... FROM orders\<close> is on a table \<open>tenantRule\<close>
  accepts and its values are not the literal form. With \<^verbatim>\<open>throwOnUnsupported\<close> false the
  transformer returns it with the nested SELECT filtered by the rule, not as it was: the
  inherited traversal sent the nested SELECT through the SELECT hook before the INSERT hook
  returned the rebuilt statement.
\<close>

theorem insert_unsupported_values_counterexample:
  "accepts (tenantConfig (Some False)) (into (insertSelectOrders ordersTable))
   \<and> \<not> isValuesNode (values (insertSelectOrders ordersTable))
   \<and> throwOnUnsupported (tenantConfig (Some False)) = Some False
   \<and> transformInsertQuery (inheritedTransformInsertQuery (tenantConfig (Some False)))
       (tenantConfig (Some False)) (insertSelectOrders ordersTable)
     = Inr (insertSelectOrdersFiltered ordersTable)
   \<and> insertSelectOrdersFiltered ordersTable \<noteq> insertSelectOrders ordersTable"
  by (simp add: transformInsertQuery_def inheritedTransformInsertQuery_def transformSelectQuery_def
      eqNodes_synthesized filterNode_Cons columnsAt_def isValuesNode_def
      insertSelectOrders_def insertSelectOrdersFiltered_def insertInto_def selectFrom_def
      tenantConfig_def tenantRule_def tableMatcher_test_def ordersTable_def)

text \<open>
  C10. An INSERT statement on a table the rule accepts whose \<^verbatim>\<open>values\<close> field is absent
  takes the same path: the hook raises \<open>UnsupportedConstruct\<close> if \<^verbatim>\<open>throwOnUnsupported\<close> is
  true or unset, and returns \<open>node\<close> as it is if \<^verbatim>\<open>throwOnUnsupported\<close> is false.
\<close>

theorem insert_absent_values:
  assumes "super originalNode = Inr node"
    and "accepts config (into node)"
    and "values node = None"
  shows "(throwOnUnsupported config \<noteq> Some False
            \<longrightarrow> transformInsertQuery super config originalNode = Inl UnsupportedConstruct)
       \<and> (throwOnUnsupported config = Some False
            \<longrightarrow> transformInsertQuery super config originalNode = Inr node)"
  using assms
  by (cases "throwOnUnsupported config") (auto simp add: transformInsertQuery_def isValuesNode_def)

theorem insert_absent_values_witness:
  "transformInsertQuery Inr (tenantConfig None) (insertInto ordersTable None None)
     = Inl UnsupportedConstruct
   \<and> transformInsertQuery Inr (tenantConfig (Some False)) (insertInto ordersTable None None)
     = Inr (insertInto ordersTable None None)"
  using insert_absent_values [of Inr "insertInto ordersTable None None"
      "insertInto ordersTable None None" "tenantConfig None"]
    insert_absent_values [of Inr "insertInto ordersTable None None"
      "insertInto ordersTable None None" "tenantConfig (Some False)"]
  by (simp add: insertInto_def tenantConfig_def tenantRule_def tableMatcher_test_def ordersTable_def)

text \<open>
  C5. An INSERT statement that arrives at the hook without a conflict clause leaves it
  without one, whether or not the rule accepts its table: the hook returns \<open>node\<close> as it
  is or raises \<open>UnsupportedConstruct\<close>, and every node it returns has no conflict clause.
\<close>

theorem insert_never_adds_conflict_clause:
  assumes "super originalNode = Inr node"
    and "onConflict node = None"
  shows "(transformInsertQuery super config originalNode = Inr node
          \<or> transformInsertQuery super config originalNode = Inl UnsupportedConstruct)
       \<and> (\<forall>r. transformInsertQuery super config originalNode = Inr r \<longrightarrow> onConflict r = None)"
  using assms
  by (auto simp add: transformInsertQuery_def)

theorem insert_never_adds_conflict_clause_witness:
  "transformInsertQuery Inr (tenantConfig None) (insertInto ordersTable (Some literalValues) None)
     = Inr (insertInto ordersTable (Some literalValues) None)
   \<and> onConflict (insertInto ordersTable (Some literalValues) None) = None"
proof -
  have "\<exists>r. transformInsertQuery Inr (tenantConfig None)
      (insertInto ordersTable (Some literalValues) None) = Inr r"
    by (simp add: transformInsertQuery_def insertInto_def tenantConfig_def tenantRule_def
        tableMatcher_test_def ordersTable_def literalValues_def isValuesNode_def)
  then show ?thesis
    using insert_never_adds_conflict_clause [of Inr
        "insertInto ordersTable (Some literalValues) None"
        "insertInto ordersTable (Some literalValues) None" "tenantConfig None"]
    by (auto simp add: insertInto_def UnsupportedConstruct_def)
qed

text \<open>
  C9. On a table the rule accepts and with a literal values list, the hook returns a node
  that differs from \<open>node\<close>, the statement the inherited traversal returned, in the field
  \<^verbatim>\<open>onConflict\<close> at most: the target table, the insert columns, the values list, the
  returning list and the ignore flag are those of \<open>node\<close>. The values of the column mapping
  are not added to the rows.
\<close>

theorem insert_changes_only_onConflict:
  assumes "super originalNode = Inr node"
    and "accepts config (into node)"
    and "values node = Some (ValuesNode rows)"
  shows "\<exists>r. transformInsertQuery super config originalNode = Inr r
      \<and> r = node\<lparr>onConflict := onConflict r\<rparr>
      \<and> into r = into node \<and> intoColumns r = intoColumns node
      \<and> values r = Some (ValuesNode rows) \<and> returning r = returning node \<and> ignore r = ignore node"
  using assms
  by (simp add: transformInsertQuery_def isValuesNode_def)

theorem insert_changes_only_onConflict_witness:
  "\<exists>r. transformInsertQuery Inr (tenantConfig None)
         (insertInto ordersTable (Some literalValues) (Some (conflictOn [''id'']))) = Inr r
     \<and> values r = Some literalValues \<and> into r = ordersTable
     \<and> intoColumns r = Some [ColumnNode (IdentifierNode ''id'')]"
  using insert_changes_only_onConflict [of Inr
      "insertInto ordersTable (Some literalValues) (Some (conflictOn [''id'']))"
      "insertInto ordersTable (Some literalValues) (Some (conflictOn [''id'']))"
      "tenantConfig None" "[PrimitiveValueListNode [JsNumber 1]]"]
  by (auto simp add: insertInto_def tenantConfig_def tenantRule_def tableMatcher_test_def
      ordersTable_def literalValues_def)

section \<open>Statements on tables the rule does not accept\<close>

text \<open>
  C4. A statement arrives at a hook as the statement the inherited traversal rebuilt. An
  INSERT whose target table the rule does not accept, whatever its values and whatever
  \<^verbatim>\<open>throwOnUnsupported\<close>, and a SELECT none of whose table references the rule accepts, are
  returned as the inherited traversal rebuilt them, and the hook does not raise. The
  result is the statement itself where the inherited traversal returns the statement
  itself; with the inherited traversal as modelled that is every INSERT on a table that is
  not accepted whose values are not a SELECT.
\<close>

theorem unmatched_statement_unchanged:
  "(superInsert insertNode = Inr node \<and> \<not> accepts config (into node)
      \<longrightarrow> transformInsertQuery superInsert config insertNode = Inr node)
   \<and> (superSelect selectNode = Inr node' \<and>
        (\<forall>t \<in> set (fromTables node'). \<not> tableMatcher_test config (fst t) (snd t))
      \<longrightarrow> transformSelectQuery superSelect config selectNode = Inr node')
   \<and> (superInsert insertNode = Inr insertNode \<and> \<not> accepts config (into insertNode)
      \<longrightarrow> transformInsertQuery superInsert config insertNode = Inr insertNode)
   \<and> (superSelect selectNode = Inr selectNode \<and>
        (\<forall>t \<in> set (fromTables selectNode). \<not> tableMatcher_test config (fst t) (snd t))
      \<longrightarrow> transformSelectQuery superSelect config selectNode = Inr selectNode)
   \<and> (\<not> accepts config (into insertNode)
        \<and> (case values insertNode of Some (ValuesSelectQueryNode s) \<Rightarrow> False | _ \<Rightarrow> True)
      \<longrightarrow> transformInsertQuery (inheritedTransformInsertQuery config) config insertNode
            = Inr insertNode)"
proof (intro conjI impI)
  assume "superInsert insertNode = Inr node \<and> \<not> accepts config (into node)"
  then show "transformInsertQuery superInsert config insertNode = Inr node"
    by (simp add: unmatched_insert)
next
  assume "superSelect selectNode = Inr node' \<and>
        (\<forall>t \<in> set (fromTables node'). \<not> tableMatcher_test config (fst t) (snd t))"
  then show "transformSelectQuery superSelect config selectNode = Inr node'"
    by (simp add: unmatched_select)
next
  assume "superInsert insertNode = Inr insertNode \<and> \<not> accepts config (into insertNode)"
  then show "transformInsertQuery superInsert config insertNode = Inr insertNode"
    by (simp add: unmatched_insert)
next
  assume "superSelect selectNode = Inr selectNode \<and>
        (\<forall>t \<in> set (fromTables selectNode). \<not> tableMatcher_test config (fst t) (snd t))"
  then show "transformSelectQuery superSelect config selectNode = Inr selectNode"
    by (simp add: unmatched_select)
next
  assume a: "\<not> accepts config (into insertNode)
        \<and> (case values insertNode of Some (ValuesSelectQueryNode s) \<Rightarrow> False | _ \<Rightarrow> True)"
  then have "inheritedTransformInsertQuery config insertNode = Inr insertNode"
    by (simp add: inheritedTransformInsertQuery_no_select)
  with a show "transformInsertQuery (inheritedTransformInsertQuery config) config insertNode
            = Inr insertNode"
    by (simp add: unmatched_insert)
qed

theorem unmatched_statement_unchanged_witness:
  "transformInsertQuery Inr (tenantConfig None)
     (insertInto usersTable (Some (ValuesSelectQueryNode (selectFrom [FromTableNode usersTable] None)))
        (Some (conflictOn [''id''])))
   = Inr (insertInto usersTable (Some (ValuesSelectQueryNode (selectFrom [FromTableNode usersTable] None)))
        (Some (conflictOn [''id''])))
   \<and> transformSelectQuery Inr (tenantConfig None)
        (selectFrom [FromTableNode usersTable] (Some (WhereNode idFilter)))
      = Inr (selectFrom [FromTableNode usersTable] (Some (WhereNode idFilter)))
   \<and> transformInsertQuery (inheritedTransformInsertQuery (tenantConfig None)) (tenantConfig None)
        (insertInto usersTable (Some (ValuesRawNode [''default values''])) None)
      = Inr (insertInto usersTable (Some (ValuesRawNode [''default values''])) None)"
  using unmatched_statement_unchanged [of Inr
      "insertInto usersTable (Some (ValuesSelectQueryNode (selectFrom [FromTableNode usersTable] None)))
        (Some (conflictOn [''id'']))"
      "insertInto usersTable (Some (ValuesSelectQueryNode (selectFrom [FromTableNode usersTable] None)))
        (Some (conflictOn [''id'']))"
      "tenantConfig None" Inr
      "selectFrom [FromTableNode usersTable] (Some (WhereNode idFilter))"
      "selectFrom [FromTableNode usersTable] (Some (WhereNode idFilter))"]
    unmatched_statement_unchanged [of Inr
      "insertInto usersTable (Some (ValuesRawNode [''default values''])) None"
      "insertInto usersTable (Some (ValuesRawNode [''default values''])) None"
      "tenantConfig None" Inr
      "selectFrom [FromTableNode usersTable] (Some (WhereNode idFilter))"
      "selectFrom [FromTableNode usersTable] (Some (WhereNode idFilter))"]
  by (simp add: insertInto_def selectFrom_def tenantConfig_def tenantRule_def tableMatcher_test_def
      usersTable_def fromTables_def flatMap_def)

text \<open>
  The statement \<^verbatim>\<open>INSERT INTO public.users SELECT ... FROM orders\<close> has a target table
  \<open>tenantRule\<close> does not accept. The transformer does not return it as it was: the inherited
  traversal sent the nested SELECT, which reads the accepted table \<^verbatim>\<open>orders\<close>, through the
  SELECT hook, and the INSERT hook returned the rebuilt statement.
\<close>

theorem unmatched_statement_unchanged_counterexample:
  "\<not> accepts (tenantConfig None) (into (insertSelectOrders usersTable))
   \<and> transformInsertQuery (inheritedTransformInsertQuery (tenantConfig None)) (tenantConfig None)
       (insertSelectOrders usersTable)
     = Inr (insertSelectOrdersFiltered usersTable)
   \<and> insertSelectOrdersFiltered usersTable \<noteq> insertSelectOrders usersTable"
  by (simp add: transformInsertQuery_def inheritedTransformInsertQuery_def transformSelectQuery_def
      eqNodes_synthesized filterNode_Cons columnsAt_def
      insertSelectOrders_def insertSelectOrdersFiltered_def insertInto_def selectFrom_def
      tenantConfig_def tenantRule_def tableMatcher_test_def ordersTable_def usersTable_def)

section \<open>The plugin\<close>

text \<open>
  C6. \<^verbatim>\<open>transformQuery\<close> sends the node of its argument through the transformers of the
  configured rules, one for each rule in the order of the array, each receiving the node
  the one before it returned; an error a transformer raises ends the pipeline.
  \<^verbatim>\<open>transformResult\<close> returns the result of its argument as it is.
\<close>

theorem pipeline_is_left_fold:
  "transformQuery host options args =
     foldThrough (\<lambda>transformer. transformNode (host transformer) transformer)
       (map (\<lambda>d. \<lparr>discriminator = d, throwOnUnsupported = options_throwOnUnsupported options\<rparr>)
          (tables options))
       (query_node args)
   \<and> transformResult resultArgs = result resultArgs"
  by (simp add: transformQuery_def transformers_def transformResult_def reduce_foldThrough)

theorem pipeline_is_left_fold_witness:
  "transformQuery defaultHost \<lparr>tables = [tenantRule, regionRule], options_throwOnUnsupported = None\<rparr>
     \<lparr>query_queryId = ''q'',
      query_node = QueryNode (SelectQueryNode (selectFrom [FromTableNode ordersTable] None))\<rparr>
   = Inr (QueryNode (SelectQueryNode (selectFrom [FromTableNode ordersTable]
       (Some (WhereNode
         (AndNode (equalityPredicate ordersTable (''region'', JsString ''eu''))
           (AndNode (equalityPredicate ordersTable (''tenant_id'', JsNumber 7))
                    (equalityPredicate ordersTable (''deleted'', JsBoolean False)))))))))
   \<and> transformResult \<lparr>result_queryId = ''q'', result = [JsNumber 1]\<rparr> = [JsNumber 1]"
  using pipeline_is_left_fold [of defaultHost
      "\<lparr>tables = [tenantRule, regionRule], options_throwOnUnsupported = None\<rparr>"
      "\<lparr>query_queryId = ''q'',
        query_node = QueryNode (SelectQueryNode (selectFrom [FromTableNode ordersTable] None))\<rparr>"
      "\<lparr>result_queryId = ''q'', result = [JsNumber 1]\<rparr>"]
  by (simp add: transformNode_def transformSelectQuery_def eqNodes_synthesized filterNode_Cons
      columnsAt_def defaultHost_def selectFrom_def tenantRule_def regionRule_def
      tableMatcher_test_def ordersTable_def)

end
